theory Spec2Isabelle
  imports Main "HOL-Library.Word" "HOL-Library.Sublist"
begin

section \<open>Shairport Sync metadata server: the event handler and the query endpoint\<close>

text \<open>
  The development embeds \<^verbatim>\<open>shairport-metadata-server/server.py\<close>: the module-level
  dict \<^verbatim>\<open>metadata\<close>, the MQTT callback \<^verbatim>\<open>on_message\<close> that updates it, and the
  Flask route \<^verbatim>\<open>get_metadata\<close> that serialises it.
\<close>

subsection \<open>Python values\<close>

text \<open>
  A Python \<^verbatim>\<open>str\<close> is a sequence of Unicode code points, a \<^verbatim>\<open>bytes\<close> object a
  sequence of octets. String literals of the source are written \<open>str ''...''\<close>.
\<close>

type_synonym pystr = "nat list"
type_synonym byte = "8 word"

definition str :: "string \<Rightarrow> pystr" where
  "str s = map of_char s"

text \<open>
  A Python \<^verbatim>\<open>float\<close> is an IEEE double: a finite value, an infinity or a NaN. The type
  \<open>'f\<close> stands for the finite doubles, which the development does not look into;
  \<open>isfinite\<close> is \<^verbatim>\<open>math.isfinite\<close>.
\<close>

datatype 'f pyfloat = Finite 'f | Infinity | NegInfinity | NaN

fun isfinite :: "'f pyfloat \<Rightarrow> bool" where
  "isfinite (Finite x) = True"
| "isfinite _ = False"

text \<open>The values stored in the dict.\<close>

datatype 'f pyval = PyNone | PyBool bool | PyInt int | PyFloat "'f pyfloat" | PyStr pystr

datatype exn = UnicodeDecodeError | ValueError

text \<open>
  The exception hierarchy: \<^verbatim>\<open>UnicodeDecodeError\<close> is a subclass of \<^verbatim>\<open>ValueError\<close>,
  which is a subclass of \<^verbatim>\<open>Exception\<close>.
\<close>

fun isinstance_ValueError :: "exn \<Rightarrow> bool" where
  "isinstance_ValueError UnicodeDecodeError = True"
| "isinstance_ValueError ValueError = True"

fun isinstance_Exception :: "exn \<Rightarrow> bool" where
  "isinstance_Exception UnicodeDecodeError = True"
| "isinstance_Exception ValueError = True"

subsection \<open>\<^verbatim>\<open>bytes.decode("utf-8")\<close>\<close>

text \<open>
  The strict UTF-8 decoder of the interpreter, on octet values: well-formed sequences are
  those of the Unicode standard (no overlong forms, no surrogates, nothing above
  \<open>0x10FFFF\<close>); anything else raises \<^verbatim>\<open>UnicodeDecodeError\<close>.
\<close>

definition utf8_cont :: "nat \<Rightarrow> nat \<Rightarrow> nat \<Rightarrow> bool" where
  "utf8_cont lo hi b = (lo \<le> b \<and> b \<le> hi)"

fun utf8_decode :: "nat list \<Rightarrow> exn + pystr" where
  "utf8_decode [] = Inr []"
| "utf8_decode (b0 # bs) =
     (if b0 < 0x80 then
        (case utf8_decode bs of Inl e \<Rightarrow> Inl e | Inr cs \<Rightarrow> Inr (b0 # cs))
      else if 0xC2 \<le> b0 \<and> b0 \<le> 0xDF then
        (case bs of
           b1 # r \<Rightarrow>
             if utf8_cont 0x80 0xBF b1 then
               (case utf8_decode r of Inl e \<Rightarrow> Inl e
                | Inr cs \<Rightarrow> Inr (((b0 - 0xC0) * 64 + (b1 - 0x80)) # cs))
             else Inl UnicodeDecodeError
         | _ \<Rightarrow> Inl UnicodeDecodeError)
      else if 0xE0 \<le> b0 \<and> b0 \<le> 0xEF then
        (case bs of
           b1 # b2 # r \<Rightarrow>
             if utf8_cont (if b0 = 0xE0 then 0xA0 else 0x80) (if b0 = 0xED then 0x9F else 0xBF) b1
                \<and> utf8_cont 0x80 0xBF b2 then
               (case utf8_decode r of Inl e \<Rightarrow> Inl e
                | Inr cs \<Rightarrow>
                    Inr (((b0 - 0xE0) * 4096 + (b1 - 0x80) * 64 + (b2 - 0x80)) # cs))
             else Inl UnicodeDecodeError
         | _ \<Rightarrow> Inl UnicodeDecodeError)
      else if 0xF0 \<le> b0 \<and> b0 \<le> 0xF4 then
        (case bs of
           b1 # b2 # b3 # r \<Rightarrow>
             if utf8_cont (if b0 = 0xF0 then 0x90 else 0x80) (if b0 = 0xF4 then 0x8F else 0xBF) b1
                \<and> utf8_cont 0x80 0xBF b2 \<and> utf8_cont 0x80 0xBF b3 then
               (case utf8_decode r of Inl e \<Rightarrow> Inl e
                | Inr cs \<Rightarrow>
                    Inr (((b0 - 0xF0) * 262144 + (b1 - 0x80) * 4096 + (b2 - 0x80) * 64
                          + (b3 - 0x80)) # cs))
             else Inl UnicodeDecodeError
         | _ \<Rightarrow> Inl UnicodeDecodeError)
      else Inl UnicodeDecodeError)"

definition decode :: "byte list \<Rightarrow> exn + pystr" where
  "decode payload = utf8_decode (map unat payload)"

subsection \<open>\<^verbatim>\<open>base64.b64encode\<close>\<close>

text \<open>
  The standard base64 encoding of RFC 4648 (alphabet \<open>A-Z a-z 0-9 + /\<close>, padding \<open>=\<close>),
  as the standard library computes it: three octets give four characters, a final group
  of one or two octets is padded. \<open>b64chr\<close> is the alphabet as a function of the sextet.
\<close>

definition b64chr :: "nat \<Rightarrow> nat" where
  "b64chr i = (if i < 26 then 65 + i else if i < 52 then 71 + i
               else if i < 62 then i - 4 else if i = 62 then 43 else 47)"

fun b64encode_octets :: "nat list \<Rightarrow> nat list" where
  "b64encode_octets [] = []"
| "b64encode_octets [a] = [b64chr (a div 4), b64chr ((a mod 4) * 16), 61, 61]"
| "b64encode_octets [a, b] =
     [b64chr (a div 4), b64chr ((a mod 4) * 16 + b div 16), b64chr ((b mod 16) * 4), 61]"
| "b64encode_octets (a # b # c # r) =
     b64chr (a div 4) # b64chr ((a mod 4) * 16 + b div 16)
       # b64chr ((b mod 16) * 4 + c div 64) # b64chr (c mod 64) # b64encode_octets r"

definition b64encode :: "byte list \<Rightarrow> byte list" where
  "b64encode bs = map of_nat (b64encode_octets (map unat bs))"

subsection \<open>The state and the messages\<close>

text \<open>
  \<^verbatim>\<open>metadata\<close> is a dict with string keys; \<open>default_metadata\<close> is its value at module
  load. An MQTT message carries a topic and a payload; \<^verbatim>\<open>userdata\<close> is the dict the
  client was created with.
\<close>

type_synonym 'f metadata = "pystr \<rightharpoonup> 'f pyval"

definition default_metadata :: "'f metadata" where
  "default_metadata =
     [str ''title'' \<mapsto> PyStr (str ''''),
      str ''artist'' \<mapsto> PyStr (str ''''),
      str ''album'' \<mapsto> PyStr (str ''''),
      str ''genre'' \<mapsto> PyStr (str ''''),
      str ''artwork_base64'' \<mapsto> PyNone,
      str ''is_playing'' \<mapsto> PyBool False,
      str ''player_state'' \<mapsto> PyStr (str ''stopped''),
      str ''volume'' \<mapsto> PyInt 0,
      str ''client_name'' \<mapsto> PyStr (str '''')]"

record mqtt_message =
  topic :: pystr
  payload :: "byte list"

type_synonym userdata = "pystr \<rightharpoonup> pystr"

subsection \<open>\<^verbatim>\<open>on_message\<close>\<close>

text \<open>\<^verbatim>\<open>userdata.get("topic_prefix", "shairport-sync")\<close>\<close>

definition topic_prefix_of :: "userdata \<Rightarrow> pystr" where
  "topic_prefix_of ud =
     (case ud (str ''topic_prefix'') of Some p \<Rightarrow> p | None \<Rightarrow> str ''shairport-sync'')"

text \<open>
  \<^verbatim>\<open>topic[len(topic_prefix) + 1:] if topic.startswith(topic_prefix) else topic\<close>;
  a slice that starts beyond the end of the string is empty.
\<close>

definition relative_topic :: "pystr \<Rightarrow> pystr \<Rightarrow> pystr" where
  "relative_topic topic_prefix t =
     (if prefix topic_prefix t then drop (length topic_prefix + 1) t else t)"

text \<open>
  A store \<^verbatim>\<open>metadata[k] = v\<close> into the dict.
\<close>

definition setitem :: "'f metadata \<Rightarrow> pystr \<times> 'f pyval \<Rightarrow> 'f metadata" where
  "setitem metadata kv = metadata(fst kv \<mapsto> snd kv)"

text \<open>
  The body of the \<^verbatim>\<open>try\<close> statement, as the stores it executes, in the order of the
  source. The parameter \<open>pyfloat\<close> is the builtin \<^verbatim>\<open>float\<close> on strings, \<open>None\<close>
  where it raises \<^verbatim>\<open>ValueError\<close>. No branch reads the dict, and every branch that can
  raise does so while it evaluates the right-hand side of its only store, so a raise
  comes with no store. The inner \<^verbatim>\<open>try\<close> of the \<^verbatim>\<open>volume\<close> branch catches
  \<^verbatim>\<open>ValueError\<close> and passes.
\<close>

definition on_message_try ::
  "(pystr \<Rightarrow> 'f pyfloat option) \<Rightarrow> pystr \<Rightarrow> byte list
     \<Rightarrow> exn + (pystr \<times> 'f pyval) list" where
  "on_message_try pyfloat relative pl =
     (if relative = str ''artist'' then
        (case decode pl of Inl e \<Rightarrow> Inl e | Inr t \<Rightarrow> Inr [(str ''artist'', PyStr t)])
      else if relative = str ''title'' then
        (case decode pl of Inl e \<Rightarrow> Inl e | Inr t \<Rightarrow> Inr [(str ''title'', PyStr t)])
      else if relative = str ''album'' then
        (case decode pl of Inl e \<Rightarrow> Inl e | Inr t \<Rightarrow> Inr [(str ''album'', PyStr t)])
      else if relative = str ''genre'' then
        (case decode pl of Inl e \<Rightarrow> Inl e | Inr t \<Rightarrow> Inr [(str ''genre'', PyStr t)])
      else if relative = str ''cover'' \<or> relative = str ''artwork'' then
        (if pl \<noteq> [] then
           (case decode (b64encode pl) of Inl e \<Rightarrow> Inl e
            | Inr t \<Rightarrow> Inr [(str ''artwork_base64'', PyStr t)])
         else Inr [(str ''artwork_base64'', PyNone)])
      else if relative = str ''play_start'' \<or> relative = str ''play_resume'' then
        Inr [(str ''is_playing'', PyBool True),
             (str ''player_state'', PyStr (str ''playing''))]
      else if relative = str ''play_end'' \<or> relative = str ''play_flush'' then
        Inr [(str ''is_playing'', PyBool False),
             (str ''player_state'', PyStr (str ''stopped'')),
             (str ''title'', PyStr (str '''')),
             (str ''artist'', PyStr (str '''')),
             (str ''album'', PyStr (str '''')),
             (str ''artwork_base64'', PyNone)]
      else if relative = str ''pause'' then
        Inr [(str ''is_playing'', PyBool False),
             (str ''player_state'', PyStr (str ''paused''))]
      else if relative = str ''volume'' then
        (case (case decode pl of Inl e \<Rightarrow> Inl e
               | Inr t \<Rightarrow> (case pyfloat t of None \<Rightarrow> Inl ValueError | Some v \<Rightarrow> Inr v)) of
           Inl e \<Rightarrow> if isinstance_ValueError e then Inr [] else Inl e
         | Inr v \<Rightarrow> Inr [(str ''volume'', PyFloat v)])
      else if relative = str ''client_name'' then
        (case decode pl of Inl e \<Rightarrow> Inl e | Inr t \<Rightarrow> Inr [(str ''client_name'', PyStr t)])
      else if relative = str ''active_start'' then Inr []
      else if relative = str ''active_end'' then
        Inr [(str ''is_playing'', PyBool False),
             (str ''player_state'', PyStr (str ''stopped'')),
             (str ''title'', PyStr (str '''')),
             (str ''artist'', PyStr (str '''')),
             (str ''album'', PyStr (str '''')),
             (str ''artwork_base64'', PyNone)]
      else Inr [])"

text \<open>
  The callback: \<open>Inr\<close> is the dict when the callback returns, \<open>Inl\<close> an exception that
  leaves it. The stores of the body are applied in order; the handler
  \<^verbatim>\<open>except Exception\<close> logs and returns.
\<close>

definition on_message ::
  "(pystr \<Rightarrow> 'f pyfloat option) \<Rightarrow> userdata \<Rightarrow> mqtt_message \<Rightarrow> 'f metadata
     \<Rightarrow> exn + 'f metadata" where
  "on_message pyfloat ud msg metadata =
     (let topic_prefix = topic_prefix_of ud;
          relative = relative_topic topic_prefix (topic msg)
      in case on_message_try pyfloat relative (payload msg) of
           Inl e \<Rightarrow> if isinstance_Exception e then Inr metadata else Inl e
         | Inr stores \<Rightarrow> Inr (foldl setitem metadata stores))"

text \<open>
  The delivery loop calls the callback once per message, in order; an exception that
  left the callback would end the loop.
\<close>

fun deliver ::
  "(pystr \<Rightarrow> 'f pyfloat option) \<Rightarrow> userdata \<Rightarrow> mqtt_message list \<Rightarrow> 'f metadata
     \<Rightarrow> exn + 'f metadata" where
  "deliver pyfloat ud [] metadata = Inr metadata"
| "deliver pyfloat ud (msg # msgs) metadata =
     (case on_message pyfloat ud msg metadata of
        Inl e \<Rightarrow> Inl e
      | Inr metadata' \<Rightarrow> deliver pyfloat ud msgs metadata')"

subsection \<open>\<^verbatim>\<open>get_metadata\<close>\<close>

text \<open>
  \<^verbatim>\<open>jsonify\<close> of a dict with string keys answers with status 200 and a body that has the
  keys of the dict: \<^verbatim>\<open>None\<close> becomes \<open>null\<close>, a \<^verbatim>\<open>bool\<close> a JSON boolean, an
  \<^verbatim>\<open>int\<close> or a finite \<^verbatim>\<open>float\<close> a JSON number, a \<^verbatim>\<open>str\<close> a JSON string. The
  encoder is \<^verbatim>\<open>json.dumps\<close> with \<^verbatim>\<open>allow_nan\<close> left on: a float that is not finite is
  written as the bare token \<^verbatim>\<open>NaN\<close>, \<^verbatim>\<open>Infinity\<close> or \<^verbatim>\<open>-Infinity\<close>, which JSON
  does not have (\<open>JToken\<close>).
\<close>

datatype 'f json =
  JNull | JBool bool | JInt int | JFloat 'f | JString pystr | JToken pystr

fun json_of :: "'f pyval \<Rightarrow> 'f json" where
  "json_of PyNone = JNull"
| "json_of (PyBool b) = JBool b"
| "json_of (PyInt i) = JInt i"
| "json_of (PyFloat (Finite x)) = JFloat x"
| "json_of (PyFloat Infinity) = JToken (str ''Infinity'')"
| "json_of (PyFloat NegInfinity) = JToken (str ''-Infinity'')"
| "json_of (PyFloat NaN) = JToken (str ''NaN'')"
| "json_of (PyStr s) = JString s"

fun json_number :: "'f json \<Rightarrow> bool" where
  "json_number (JInt i) = True"
| "json_number (JFloat x) = True"
| "json_number _ = False"

record 'f response =
  status_code :: nat
  json_body :: "pystr \<rightharpoonup> 'f json"

definition jsonify :: "(pystr \<rightharpoonup> 'f pyval) \<Rightarrow> 'f response" where
  "jsonify d = \<lparr>status_code = 200, json_body = (\<lambda>k. map_option json_of (d k))\<rparr>"

definition get_metadata :: "'f metadata \<Rightarrow> 'f response" where
  "get_metadata metadata = jsonify metadata"

subsection \<open>Vocabulary of the specification\<close>

text \<open>
  The topics of the action table, and for each relative topic the fields its action
  addresses, as the table of the specification lists them.
\<close>

definition action_table_topics :: "pystr list" where
  "action_table_topics =
     map str [''artist'', ''title'', ''album'', ''genre'', ''cover'', ''artwork'',
       ''play_start'', ''play_resume'', ''play_end'', ''play_flush'', ''pause'', ''volume'',
       ''client_name'', ''active_start'', ''active_end'']"

definition action_table_fields :: "pystr \<Rightarrow> pystr set" where
  "action_table_fields relative =
     (if relative \<in> set (map str [''artist'', ''title'', ''album'', ''genre'']) then {relative}
      else if relative \<in> set (map str [''cover'', ''artwork'']) then {str ''artwork_base64''}
      else if relative \<in> set (map str [''play_start'', ''play_resume'', ''pause'']) then
        {str ''is_playing'', str ''player_state''}
      else if relative \<in> set (map str [''play_end'', ''play_flush'', ''active_end'']) then
        {str ''is_playing'', str ''player_state'', str ''title'', str ''artist'', str ''album'',
         str ''artwork_base64''}
      else if relative = str ''volume'' then {str ''volume''}
      else if relative = str ''client_name'' then {str ''client_name''}
      else {})"

text \<open>The state a stop action leaves: track fields cleared, not playing, stopped.\<close>

definition stopped_and_cleared :: "'f metadata \<Rightarrow> bool" where
  "stopped_and_cleared m \<longleftrightarrow>
     m (str ''title'') = Some (PyStr (str ''''))
     \<and> m (str ''artist'') = Some (PyStr (str ''''))
     \<and> m (str ''album'') = Some (PyStr (str ''''))
     \<and> m (str ''artwork_base64'') = Some PyNone
     \<and> m (str ''is_playing'') = Some (PyBool False)
     \<and> m (str ''player_state'') = Some (PyStr (str ''stopped''))"

text \<open>\<^verbatim>\<open>isPlaying == (playerState == playing)\<close>\<close>

definition playing_consistent :: "'f metadata \<Rightarrow> bool" where
  "playing_consistent m =
     ((m (str ''is_playing'') = Some (PyBool True))
        = (m (str ''player_state'') = Some (PyStr (str ''playing''))))"

text \<open>
  Base64 decoding after RFC 4648, strict: the inverse alphabet, groups of four characters,
  padding only in the last group.
\<close>

definition b64val :: "nat \<Rightarrow> nat option" where
  "b64val c = (if 65 \<le> c \<and> c \<le> 90 then Some (c - 65)
               else if 97 \<le> c \<and> c \<le> 122 then Some (c - 71)
               else if 48 \<le> c \<and> c \<le> 57 then Some (c + 4)
               else if c = 43 then Some 62
               else if c = 47 then Some 63
               else None)"

fun b64decode :: "pystr \<Rightarrow> byte list option" where
  "b64decode [] = Some []"
| "b64decode (c1 # c2 # c3 # c4 # r) =
     (case (b64val c1, b64val c2) of
        (Some s1, Some s2) \<Rightarrow>
          if c3 = 61 \<and> c4 = 61 \<and> r = [] then Some [of_nat (s1 * 4 + s2 div 16)]
          else
            (case b64val c3 of
               Some s3 \<Rightarrow>
                 if c4 = 61 \<and> r = [] then
                   Some [of_nat (s1 * 4 + s2 div 16), of_nat ((s2 mod 16) * 16 + s3 div 4)]
                 else
                   (case b64val c4 of
                      Some s4 \<Rightarrow>
                        (case b64decode r of
                           Some bs \<Rightarrow>
                             Some (of_nat (s1 * 4 + s2 div 16)
                                   # of_nat ((s2 mod 16) * 16 + s3 div 4)
                                   # of_nat ((s3 mod 4) * 64 + s4) # bs)
                         | None \<Rightarrow> None)
                    | None \<Rightarrow> None)
             | None \<Rightarrow> None)
      | _ \<Rightarrow> None)"
| "b64decode _ = None"

text \<open>
  A stand-in for \<^verbatim>\<open>float\<close> in examples: it reads \<^verbatim>\<open>nan\<close> as NaN and a non-empty
  string of ASCII digits as the finite value it denotes, as \<^verbatim>\<open>float\<close> does, and raises
  on every other string.
\<close>

fun digits_value :: "pystr \<Rightarrow> int \<Rightarrow> int option" where
  "digits_value [] acc = Some acc"
| "digits_value (c # cs) acc =
     (if 48 \<le> c \<and> c \<le> 57 then digits_value cs (10 * acc + (int c - 48)) else None)"

definition sample_float :: "pystr \<Rightarrow> int pyfloat option" where
  "sample_float t =
     (if t = str ''nan'' then Some NaN
      else if t = [] then None
      else (case digits_value t 0 of None \<Rightarrow> None | Some n \<Rightarrow> Some (Finite n)))"

text \<open>
  The shape of the dict that \<^verbatim>\<open>/metadata\<close> serialises: its keys, and for each key the
  values it may hold. The artwork is \<^verbatim>\<open>None\<close> or the base64 text of a non-empty payload.
\<close>

definition metadata_keys :: "pystr list" where
  "metadata_keys =
     map str [''title'', ''artist'', ''album'', ''genre'', ''artwork_base64'',
       ''is_playing'', ''player_state'', ''volume'', ''client_name'']"

definition value_ok :: "pystr \<Rightarrow> 'f pyval \<Rightarrow> bool" where
  "value_ok k v =
     (if k \<in> set (map str [''title'', ''artist'', ''album'', ''genre'', ''client_name'']) then
        (\<exists>t. v = PyStr t)
      else if k = str ''artwork_base64'' then
        (v = PyNone \<or> (\<exists>p t. p \<noteq> [] \<and> decode (b64encode p) = Inr t \<and> v = PyStr t))
      else if k = str ''is_playing'' then (\<exists>b. v = PyBool b)
      else if k = str ''player_state'' then
        v \<in> {PyStr (str ''stopped''), PyStr (str ''playing''), PyStr (str ''paused'')}
      else if k = str ''volume'' then ((\<exists>i. v = PyInt i) \<or> (\<exists>x. v = PyFloat x))
      else False)"

definition well_formed :: "'f metadata \<Rightarrow> bool" where
  "well_formed m =
     (\<forall>k. case m k of None \<Rightarrow> k \<notin> set metadata_keys | Some v \<Rightarrow> value_ok k v)"

section \<open>Basic facts\<close>

lemma str_inject [simp]: "str a = str b \<longleftrightarrow> a = b"
  by (simp add: str_def inj_map_eq_map inj_of_char)

lemma str_Nil [simp]: "str [] = []"
  by (simp add: str_def)

lemma str_eq_Nil [simp]: "str a = [] \<longleftrightarrow> a = []" "[] = str a \<longleftrightarrow> a = []"
  by (auto simp add: str_def)

lemma topic_cases [case_names artist title album genre cover artwork play_start play_resume
    play_end play_flush pause volume client_name active_start active_end other]:
  obtains "rt = str ''artist''" | "rt = str ''title''" | "rt = str ''album''"
  | "rt = str ''genre''" | "rt = str ''cover''" | "rt = str ''artwork''"
  | "rt = str ''play_start''" | "rt = str ''play_resume''" | "rt = str ''play_end''"
  | "rt = str ''play_flush''" | "rt = str ''pause''" | "rt = str ''volume''"
  | "rt = str ''client_name''" | "rt = str ''active_start''" | "rt = str ''active_end''"
  | "rt \<notin> set action_table_topics"
  unfolding action_table_topics_def by auto

lemma isinstance_Exception_all [simp]: "isinstance_Exception e"
  by (cases e) simp_all

lemma isinstance_ValueError_all [simp]: "isinstance_ValueError e"
  by (cases e) simp_all

text \<open>The callback always returns: no exception leaves it, and the loop never ends early.\<close>

lemma on_message_total: "\<exists>m'. on_message pf ud msg m = Inr m'"
  by (simp add: on_message_def Let_def split: sum.split)

lemma deliver_total: "\<exists>m'. deliver pf ud msgs m = Inr m'"
proof (induction msgs arbitrary: m)
  case Nil
  show ?case by simp
next
  case (Cons msg msgs)
  obtain m1 where "on_message pf ud msg m = Inr m1"
    using on_message_total by blast
  with Cons show ?case by simp
qed

lemma deliver_append:
  "deliver pf ud (xs @ ys) m =
     (case deliver pf ud xs m of Inl e \<Rightarrow> Inl e | Inr m' \<Rightarrow> deliver pf ud ys m')"
  by (induction xs arbitrary: m) (simp_all split: sum.split)

lemma deliver_snoc:
  "deliver pf ud (xs @ [msg]) m =
     (case deliver pf ud xs m of Inl e \<Rightarrow> Inl e | Inr m' \<Rightarrow> on_message pf ud msg m')"
  by (simp add: deliver_append split: sum.split)

lemma foldl_setitem_other:
  "k \<notin> fst ` set ws \<Longrightarrow> foldl setitem m ws k = m k"
  by (induction ws arbitrary: m) (auto simp: setitem_def)

text \<open>The stores of a branch address only the fields the action table lists.\<close>

lemma try_stores_in_table:
  "on_message_try pf rt pl = Inr ws \<Longrightarrow> fst ` set ws \<subseteq> action_table_fields rt"
  by (cases rt rule: topic_cases)
     (auto simp: on_message_try_def action_table_fields_def action_table_topics_def
           split: sum.splits option.splits if_splits)

lemma try_other: "rt \<notin> set action_table_topics \<Longrightarrow> on_message_try pf rt pl = Inr []"
  by (simp add: on_message_try_def action_table_topics_def)

subsection \<open>Concrete messages\<close>

lemma decode_X: "decode [0x58] = Inr (str ''X'')"
  by (simp add: decode_def str_def)

lemma decode_50: "decode [0x35, 0x30] = Inr (str ''50'')"
  by (simp add: decode_def str_def)

lemma decode_abc: "decode [0x61, 0x62, 0x63] = Inr (str ''abc'')"
  by (simp add: decode_def str_def)

lemma decode_bad: "decode [0xFF] = Inl UnicodeDecodeError"
  by (simp add: decode_def)

lemma sample_float_50: "sample_float (str ''50'') = Some (Finite 50)"
  by (simp add: sample_float_def str_def)

lemma sample_float_abc: "sample_float (str ''abc'') = None"
  by (simp add: sample_float_def str_def)

lemma rt_title:
  "relative_topic (topic_prefix_of Map.empty) (str ''shairport-sync/title'') = str ''title''"
  by (simp add: relative_topic_def topic_prefix_of_def str_def)

lemma rt_volume:
  "relative_topic (topic_prefix_of Map.empty) (str ''shairport-sync/volume'') = str ''volume''"
  by (simp add: relative_topic_def topic_prefix_of_def str_def)

lemma rt_pause:
  "relative_topic (topic_prefix_of Map.empty) (str ''shairport-sync/pause'') = str ''pause''"
  by (simp add: relative_topic_def topic_prefix_of_def str_def)

lemma rt_play_end:
  "relative_topic (topic_prefix_of Map.empty) (str ''shairport-sync/play_end'') = str ''play_end''"
  by (simp add: relative_topic_def topic_prefix_of_def str_def)

lemma rt_play_start:
  "relative_topic (topic_prefix_of Map.empty) (str ''shairport-sync/play_start'')
     = str ''play_start''"
  by (simp add: relative_topic_def topic_prefix_of_def str_def)

lemma rt_cover:
  "relative_topic (topic_prefix_of Map.empty) (str ''shairport-sync/cover'') = str ''cover''"
  by (simp add: relative_topic_def topic_prefix_of_def str_def)

lemma on_message_title_X:
  "on_message sample_float Map.empty
     \<lparr>topic = str ''shairport-sync/title'', payload = [0x58]\<rparr> m
   = Inr (m(str ''title'' \<mapsto> PyStr (str ''X'')))"
  by (simp add: on_message_def rt_title on_message_try_def decode_X setitem_def)

lemma on_message_volume_50:
  "on_message sample_float Map.empty
     \<lparr>topic = str ''shairport-sync/volume'', payload = [0x35, 0x30]\<rparr> m
   = Inr (m(str ''volume'' \<mapsto> PyFloat (Finite 50)))"
  by (simp add: on_message_def rt_volume on_message_try_def decode_50 sample_float_50
        setitem_def)

lemma on_message_play_start:
  "on_message sample_float Map.empty
     \<lparr>topic = str ''shairport-sync/play_start'', payload = []\<rparr> m
   = Inr (m(str ''is_playing'' \<mapsto> PyBool True,
            str ''player_state'' \<mapsto> PyStr (str ''playing'')))"
  by (simp add: on_message_def rt_play_start on_message_try_def setitem_def)

lemma on_message_play_end:
  "on_message sample_float Map.empty
     \<lparr>topic = str ''shairport-sync/play_end'', payload = []\<rparr> m
   = Inr (m(str ''is_playing'' \<mapsto> PyBool False,
            str ''player_state'' \<mapsto> PyStr (str ''stopped''),
            str ''title'' \<mapsto> PyStr (str ''''),
            str ''artist'' \<mapsto> PyStr (str ''''),
            str ''album'' \<mapsto> PyStr (str ''''),
            str ''artwork_base64'' \<mapsto> PyNone))"
  by (simp add: on_message_def rt_play_end on_message_try_def setitem_def)

section \<open>Stop actions\<close>

lemma on_message_stop:
  assumes "relative_topic (topic_prefix_of ud) (topic msg)
             \<in> {str ''play_end'', str ''play_flush'', str ''active_end''}"
  shows "\<exists>m'. on_message pf ud msg m = Inr m' \<and> stopped_and_cleared m'"
  using assms
  by (auto simp: on_message_def on_message_try_def stopped_and_cleared_def setitem_def)

lemma only_stop_sets_stopped:
  assumes "on_message pf ud msg m = Inr m'"
    and "m' (str ''player_state'') = Some (PyStr (str ''stopped''))"
    and "m (str ''player_state'') \<noteq> Some (PyStr (str ''stopped''))"
  shows "stopped_and_cleared m'"
  using assms
  by (cases "relative_topic (topic_prefix_of ud) (topic msg)" rule: topic_cases)
     (auto simp: on_message_def on_message_try_def stopped_and_cleared_def setitem_def
        action_table_topics_def split: sum.splits option.splits if_splits)

text \<open>
  Claim C1. Whatever messages came before and whatever the dict held, the dict right after
  a \<^verbatim>\<open>play_end\<close>, \<^verbatim>\<open>play_flush\<close> or \<^verbatim>\<open>active_end\<close> message has empty title, artist
  and album, no artwork, \<^verbatim>\<open>is_playing\<close> false and \<^verbatim>\<open>player_state\<close> stopped; and every
  call of the callback that changes \<^verbatim>\<open>player_state\<close> to stopped leaves the dict so.
\<close>

theorem stop_action_clears:
  "(relative_topic (topic_prefix_of ud) (topic msg)
       \<in> {str ''play_end'', str ''play_flush'', str ''active_end''}
     \<longrightarrow> (\<exists>m'. deliver pf ud (msgs @ [msg]) m = Inr m' \<and> stopped_and_cleared m'))
   \<and> (\<forall>m0 m1. on_message pf ud msg m0 = Inr m1
         \<and> m0 (str ''player_state'') \<noteq> Some (PyStr (str ''stopped''))
         \<and> m1 (str ''player_state'') = Some (PyStr (str ''stopped''))
       \<longrightarrow> stopped_and_cleared m1)"
proof (intro conjI impI allI)
  assume stop: "relative_topic (topic_prefix_of ud) (topic msg)
       \<in> {str ''play_end'', str ''play_flush'', str ''active_end''}"
  obtain m1 where m1: "deliver pf ud msgs m = Inr m1"
    using deliver_total by blast
  from on_message_stop [OF stop] obtain m' where
    "on_message pf ud msg m1 = Inr m'" "stopped_and_cleared m'" by blast
  with m1 show "\<exists>m'. deliver pf ud (msgs @ [msg]) m = Inr m' \<and> stopped_and_cleared m'"
    by (simp add: deliver_snoc)
next
  fix m0 m1
  assume "on_message pf ud msg m0 = Inr m1
         \<and> m0 (str ''player_state'') \<noteq> Some (PyStr (str ''stopped''))
         \<and> m1 (str ''player_state'') = Some (PyStr (str ''stopped''))"
  then show "stopped_and_cleared m1"
    using only_stop_sets_stopped by blast
qed

theorem stop_action_clears_witness:
  "relative_topic (topic_prefix_of Map.empty) (str ''shairport-sync/play_end'')
      \<in> {str ''play_end'', str ''play_flush'', str ''active_end''}
   \<and> (\<exists>m'. deliver sample_float Map.empty
          [\<lparr>topic = str ''shairport-sync/title'', payload = [0x58]\<rparr>,
           \<lparr>topic = str ''shairport-sync/play_start'', payload = []\<rparr>,
           \<lparr>topic = str ''shairport-sync/play_end'', payload = []\<rparr>] default_metadata = Inr m'
        \<and> stopped_and_cleared m')
   \<and> (\<exists>m1. on_message sample_float Map.empty
          \<lparr>topic = str ''shairport-sync/play_end'', payload = []\<rparr>
          (default_metadata(str ''title'' \<mapsto> PyStr (str ''X''),
             str ''is_playing'' \<mapsto> PyBool True,
             str ''player_state'' \<mapsto> PyStr (str ''playing''))) = Inr m1
        \<and> (default_metadata(str ''title'' \<mapsto> PyStr (str ''X''),
             str ''is_playing'' \<mapsto> PyBool True,
             str ''player_state'' \<mapsto> PyStr (str ''playing'')) :: int metadata)
            (str ''player_state'') \<noteq> Some (PyStr (str ''stopped''))
        \<and> m1 (str ''player_state'') = Some (PyStr (str ''stopped''))
        \<and> stopped_and_cleared m1)"
  using stop_action_clears [of Map.empty
      "\<lparr>topic = str ''shairport-sync/play_end'', payload = []\<rparr>" sample_float
      "[\<lparr>topic = str ''shairport-sync/title'', payload = [0x58]\<rparr>,
        \<lparr>topic = str ''shairport-sync/play_start'', payload = []\<rparr>]" default_metadata]
  by (simp add: rt_play_end on_message_play_end stopped_and_cleared_def)

section \<open>The playing flag\<close>

lemma playing_consistent_default: "playing_consistent (default_metadata :: 'f metadata)"
  by (simp add: playing_consistent_def default_metadata_def)

lemma playing_consistent_step:
  assumes "playing_consistent m"
  shows "\<exists>m'. on_message pf ud msg m = Inr m' \<and> playing_consistent m'"
  using assms
  by (cases "relative_topic (topic_prefix_of ud) (topic msg)" rule: topic_cases)
     (auto simp: on_message_def on_message_try_def playing_consistent_def setitem_def
        action_table_topics_def split: sum.splits option.splits if_splits)

lemma playing_consistent_deliver:
  assumes "playing_consistent m"
  shows "\<exists>m'. deliver pf ud msgs m = Inr m' \<and> playing_consistent m'"
  using assms
proof (induction msgs arbitrary: m)
  case Nil
  then show ?case by simp
next
  case (Cons msg msgs)
  from playing_consistent_step [OF Cons.prems] obtain m1 where
    "on_message pf ud msg m = Inr m1" "playing_consistent m1" by blast
  with Cons.IH [of m1] show ?case by simp
qed

text \<open>
  Claim C2. \<^verbatim>\<open>is_playing\<close> is true exactly when \<^verbatim>\<open>player_state\<close> is \<^verbatim>\<open>"playing"\<close>: in
  the default dict, after every call of the callback on a dict where it holds, and so after
  every sequence of messages delivered from the default dict.
\<close>

theorem playing_flag_invariant:
  "playing_consistent (default_metadata :: 'f metadata)
   \<and> (playing_consistent m \<longrightarrow>
        (\<exists>m'. on_message pf ud msg m = Inr m' \<and> playing_consistent m'))
   \<and> (\<exists>m'. deliver pf ud msgs (default_metadata :: 'f metadata) = Inr m'
          \<and> playing_consistent m')"
  using playing_consistent_default playing_consistent_step
    playing_consistent_deliver [OF playing_consistent_default]
  by blast

theorem playing_flag_invariant_witness:
  "playing_consistent (default_metadata(str ''title'' \<mapsto> PyStr (str ''X'')) :: int metadata)
   \<and> (\<exists>m'. on_message sample_float Map.empty
          \<lparr>topic = str ''shairport-sync/play_start'', payload = []\<rparr>
          (default_metadata(str ''title'' \<mapsto> PyStr (str ''X''))) = Inr m'
        \<and> playing_consistent m'
        \<and> m' (str ''is_playing'') = Some (PyBool True))"
proof -
  have a: "playing_consistent (default_metadata(str ''title'' \<mapsto> PyStr (str ''X'')) :: int metadata)"
    by (simp add: playing_consistent_def default_metadata_def)
  show ?thesis
    using a playing_flag_invariant [of "default_metadata(str ''title'' \<mapsto> PyStr (str ''X''))"
        sample_float Map.empty "\<lparr>topic = str ''shairport-sync/play_start'', payload = []\<rparr>" "[]"]
    by (simp add: on_message_play_start)
qed

section \<open>Fields an event does not address\<close>

text \<open>
  Claim C4. A call of the callback changes no key outside the fields the action table lists
  for the message's relative topic, and a message whose relative topic is not in the table
  leaves the dict as it was.
\<close>

theorem frame_effect:
  "\<exists>m'. on_message pf ud msg m = Inr m'
     \<and> (\<forall>k. k \<notin> action_table_fields (relative_topic (topic_prefix_of ud) (topic msg))
            \<longrightarrow> m' k = m k)
     \<and> (relative_topic (topic_prefix_of ud) (topic msg) \<notin> set action_table_topics
            \<longrightarrow> m' = m)"
proof (cases "on_message_try pf (relative_topic (topic_prefix_of ud) (topic msg)) (payload msg)")
  case (Inl e)
  then show ?thesis by (simp add: on_message_def)
next
  case (Inr ws)
  have "foldl setitem m ws k = m k"
    if "k \<notin> action_table_fields (relative_topic (topic_prefix_of ud) (topic msg))" for k
    using that try_stores_in_table [OF Inr] foldl_setitem_other [of k ws m] by blast
  moreover have "foldl setitem m ws = m"
    if "relative_topic (topic_prefix_of ud) (topic msg) \<notin> set action_table_topics"
    using Inr try_other [OF that, of pf "payload msg"] by simp
  ultimately show ?thesis using Inr by (simp add: on_message_def)
qed

lemma rt_unknown:
  "relative_topic (topic_prefix_of Map.empty) (str ''shairport-sync/songalbum'')
     = str ''songalbum''"
  by (simp add: relative_topic_def topic_prefix_of_def str_def)

theorem frame_effect_witness:
  "deliver sample_float Map.empty
     [\<lparr>topic = str ''shairport-sync/title'', payload = [0x58]\<rparr>,
      \<lparr>topic = str ''shairport-sync/volume'', payload = [0x35, 0x30]\<rparr>] default_metadata
   = Inr (default_metadata(str ''title'' \<mapsto> PyStr (str ''X''), str ''volume'' \<mapsto> PyFloat (Finite 50)))
   \<and> str ''title'' \<notin> action_table_fields (str ''volume'')
   \<and> (default_metadata(str ''title'' \<mapsto> PyStr (str ''X''), str ''volume'' \<mapsto> PyFloat (Finite 50)))
        (str ''title'') = Some (PyStr (str ''X''))
   \<and> str ''songalbum'' \<notin> set action_table_topics
   \<and> on_message sample_float Map.empty
        \<lparr>topic = str ''shairport-sync/songalbum'', payload = [0x58]\<rparr> default_metadata
      = Inr default_metadata"
  using frame_effect [of sample_float Map.empty
      "\<lparr>topic = str ''shairport-sync/volume'', payload = [0x35, 0x30]\<rparr>"
      "default_metadata(str ''title'' \<mapsto> PyStr (str ''X''))"]
    frame_effect [of sample_float Map.empty
      "\<lparr>topic = str ''shairport-sync/songalbum'', payload = [0x58]\<rparr>" default_metadata]
  by (auto simp add: on_message_title_X on_message_volume_50 action_table_fields_def
        action_table_topics_def rt_unknown)

section \<open>Malformed payloads\<close>

lemma on_message_failure:
  assumes "(relative_topic (topic_prefix_of ud) (topic msg)
              \<in> set (map str [''artist'', ''title'', ''album'', ''genre'', ''client_name''])
            \<and> decode (payload msg) = Inl e)
         \<or> (relative_topic (topic_prefix_of ud) (topic msg) = str ''volume''
            \<and> (decode (payload msg) = Inl e
                \<or> (\<exists>t. decode (payload msg) = Inr t \<and> pf t = None)))"
  shows "on_message pf ud msg m = Inr m"
  using assms by (auto simp: on_message_def on_message_try_def)

text \<open>
  Claim C5. When the payload of a text-field message is not valid UTF-8, or the payload of a
  \<^verbatim>\<open>volume\<close> message does not decode or does not parse as a float, the callback returns
  (no exception leaves it) with the dict unchanged, and the messages before and after it
  are handled as if it had not been delivered.
\<close>

theorem malformed_event_contained:
  assumes "(relative_topic (topic_prefix_of ud) (topic msg)
              \<in> set (map str [''artist'', ''title'', ''album'', ''genre'', ''client_name''])
            \<and> decode (payload msg) = Inl e)
         \<or> (relative_topic (topic_prefix_of ud) (topic msg) = str ''volume''
            \<and> (decode (payload msg) = Inl e
                \<or> (\<exists>t. decode (payload msg) = Inr t \<and> pf t = None)))"
  shows "on_message pf ud msg m = Inr m
     \<and> deliver pf ud (earlier @ msg # later) m = deliver pf ud (earlier @ later) m
     \<and> (\<exists>m'. deliver pf ud (earlier @ msg # later) m = Inr m')"
proof -
  have step: "on_message pf ud msg m1 = Inr m1" for m1
    using on_message_failure [OF assms] .
  obtain m1 where "deliver pf ud earlier m = Inr m1"
    using deliver_total by blast
  then have "deliver pf ud (earlier @ msg # later) m = deliver pf ud (earlier @ later) m"
    by (simp add: deliver_append step)
  then show ?thesis using step deliver_total by metis
qed

theorem malformed_event_contained_witness:
  "relative_topic (topic_prefix_of Map.empty) (str ''shairport-sync/volume'') = str ''volume''
   \<and> decode [0x61, 0x62, 0x63] = Inr (str ''abc'') \<and> sample_float (str ''abc'') = None
   \<and> on_message sample_float Map.empty
        \<lparr>topic = str ''shairport-sync/volume'', payload = [0x61, 0x62, 0x63]\<rparr> default_metadata
       = Inr default_metadata
   \<and> relative_topic (topic_prefix_of Map.empty) (str ''shairport-sync/title'') = str ''title''
   \<and> decode [0xFF] = Inl UnicodeDecodeError
   \<and> deliver sample_float Map.empty
        [\<lparr>topic = str ''shairport-sync/title'', payload = [0xFF]\<rparr>,
         \<lparr>topic = str ''shairport-sync/title'', payload = [0x58]\<rparr>] default_metadata
       = Inr (default_metadata(str ''title'' \<mapsto> PyStr (str ''X'')))"
  using malformed_event_contained [of Map.empty
      "\<lparr>topic = str ''shairport-sync/volume'', payload = [0x61, 0x62, 0x63]\<rparr>"
      UnicodeDecodeError sample_float default_metadata "[]" "[]"]
    malformed_event_contained [of Map.empty
      "\<lparr>topic = str ''shairport-sync/title'', payload = [0xFF]\<rparr>"
      UnicodeDecodeError sample_float default_metadata "[]"
      "[\<lparr>topic = str ''shairport-sync/title'', payload = [0x58]\<rparr>]"]
  by (simp add: rt_title rt_volume decode_bad decode_abc sample_float_abc on_message_title_X)

section \<open>The relative topic\<close>

text \<open>
  Claim C6, as the code has it. A raw topic that starts with the prefix is the prefix, the
  one character that follows it (none when the topic is the prefix itself) and the
  relative topic: that character is dropped whatever it is. So a raw topic made of the
  prefix, the separator \<open>/\<close> and a rest has the rest as its relative topic. A raw topic
  that does not start with the prefix is its own relative topic, and the callback handles
  it as it handles the same topic behind the prefix.
\<close>

theorem relative_topic_strips_prefix:
  "relative_topic p (p @ str ''/'' @ rest) = rest
   \<and> (prefix p t \<longrightarrow> t = p @ take 1 (drop (length p) t) @ relative_topic p t)
   \<and> (\<not> prefix p t \<longrightarrow> relative_topic p t = t)
   \<and> (\<not> prefix (topic_prefix_of ud) (topic msg) \<longrightarrow>
        on_message pf ud msg m
          = on_message pf ud (msg\<lparr>topic := topic_prefix_of ud @ str ''/'' @ topic msg\<rparr>) m)"
proof -
  have "t = p @ take 1 (drop (length p) t) @ drop (length p + 1) t" if "prefix p t"
  proof -
    from that obtain r where "t = p @ r" by (auto simp: prefix_def)
    then show ?thesis by (cases r) simp_all
  qed
  then show ?thesis
    by (simp add: relative_topic_def on_message_def str_def)
qed

theorem relative_topic_strips_prefix_witness:
  "relative_topic (str ''shairport-sync'') (str ''shairport-sync/title'') = str ''title''
   \<and> prefix (str ''shairport-sync'') (str ''shairport-sync/title'')
   \<and> \<not> prefix (str ''shairport-sync'') (str ''title'')
   \<and> relative_topic (str ''shairport-sync'') (str ''title'') = str ''title''
   \<and> \<not> prefix (topic_prefix_of Map.empty) (str ''title'')
   \<and> on_message sample_float Map.empty \<lparr>topic = str ''title'', payload = [0x58]\<rparr> default_metadata
       = Inr (default_metadata(str ''title'' \<mapsto> PyStr (str ''X'')))"
proof -
  have a: "\<not> prefix (str ''shairport-sync'') (str ''title'')"
    by (simp add: str_def)
  have b: "\<not> prefix (topic_prefix_of Map.empty) (topic \<lparr>topic = str ''title'', payload = [0x58]\<rparr>)"
    by (simp add: str_def topic_prefix_of_def)
  have c: "topic_prefix_of Map.empty @ str ''/'' @ str ''title'' = str ''shairport-sync/title''"
    by (simp add: str_def topic_prefix_of_def)
  have d: "str ''shairport-sync'' @ str ''/'' @ str ''title'' = str ''shairport-sync/title''"
    by (simp add: str_def)
  have e: "prefix (str ''shairport-sync'') (str ''shairport-sync/title'')"
    by (simp add: str_def)
  show ?thesis
    using relative_topic_strips_prefix [of "str ''shairport-sync''" "str ''title''" "str ''title''"
        Map.empty "\<lparr>topic = str ''title'', payload = [0x58]\<rparr>" sample_float default_metadata]
      a b e by (simp add: c d on_message_title_X)
qed

text \<open>
  The claim as stated fails: the character after the prefix is dropped without a check
  that it is the separator, so what is stripped from a raw topic that starts with the
  prefix need not be the prefix and its separator.
\<close>

theorem separator_not_checked_counterexample:
  "prefix (str ''shairport-sync'') (str ''shairport-syncXtitle'')
   \<and> relative_topic (str ''shairport-sync'') (str ''shairport-syncXtitle'') = str ''title''
   \<and> str ''shairport-syncXtitle'' \<noteq> str ''shairport-sync'' @ str ''/'' @ str ''title''
   \<and> prefix (str ''shairport-sync'') (str ''shairport-sync2/title'')
   \<and> relative_topic (str ''shairport-sync'') (str ''shairport-sync2/title'') = str ''/title''
   \<and> str ''shairport-sync2/title'' \<noteq> str ''shairport-sync'' @ str ''/'' @ str ''/title''
   \<and> on_message sample_float Map.empty
        \<lparr>topic = str ''shairport-syncXtitle'', payload = [0x58]\<rparr> default_metadata
      = Inr (default_metadata(str ''title'' \<mapsto> PyStr (str ''X'')))"
  by (simp add: relative_topic_def str_def on_message_def topic_prefix_of_def
        on_message_try_def decode_def setitem_def)

section \<open>Pause\<close>

text \<open>
  Claim C7. A \<^verbatim>\<open>pause\<close> message delivered twice in a row leaves the dict that one
  delivery leaves, from any dict.
\<close>

theorem pause_idempotent:
  assumes "relative_topic (topic_prefix_of ud) (topic msg) = str ''pause''"
  shows "(\<exists>m1. on_message pf ud msg m = Inr m1 \<and> on_message pf ud msg m1 = Inr m1)
     \<and> deliver pf ud [msg, msg] m = deliver pf ud [msg] m"
  using assms by (simp add: on_message_def on_message_try_def setitem_def)

theorem pause_idempotent_witness:
  "relative_topic (topic_prefix_of Map.empty) (str ''shairport-sync/pause'') = str ''pause''
   \<and> deliver sample_float Map.empty
        [\<lparr>topic = str ''shairport-sync/pause'', payload = []\<rparr>,
         \<lparr>topic = str ''shairport-sync/pause'', payload = []\<rparr>] default_metadata
     = deliver sample_float Map.empty
        [\<lparr>topic = str ''shairport-sync/pause'', payload = []\<rparr>] default_metadata"
  using pause_idempotent [of Map.empty "\<lparr>topic = str ''shairport-sync/pause'', payload = []\<rparr>"
      sample_float default_metadata]
  by (simp add: rt_pause)

section \<open>Artwork\<close>

lemma b64chr_ascii: "b64chr i < 128"
  by (auto simp add: b64chr_def)

lemma b64chr_not_pad: "b64chr i \<noteq> 61"
  by (auto simp add: b64chr_def)

lemma b64val_b64chr: "i < 64 \<Longrightarrow> b64val (b64chr i) = Some i"
  by (auto simp add: b64chr_def b64val_def)

lemma b64encode_octets_ascii: "\<forall>c \<in> set (b64encode_octets xs). c < 128"
  by (induction xs rule: b64encode_octets.induct) (simp_all add: b64chr_ascii)

lemma utf8_decode_ascii: "\<forall>c \<in> set xs. c < 128 \<Longrightarrow> utf8_decode xs = Inr xs"
  by (induction xs) simp_all

lemma unat_of_nat_byte: "n < 128 \<Longrightarrow> unat (of_nat n :: byte) = n"
  by (simp add: unat_of_nat)

lemma unat_byte: "unat (x :: byte) < 256"
  using unsigned_less [of x, where ?'a = nat] by simp

text \<open>The base64 text is ASCII, so decoding it as UTF-8 gives its characters.\<close>

lemma decode_b64encode: "decode (b64encode pl) = Inr (b64encode_octets (map unat pl))"
proof -
  have a: "\<forall>c \<in> set (b64encode_octets (map unat pl)). c < 128"
    by (rule b64encode_octets_ascii)
  then have "map unat (b64encode pl) = b64encode_octets (map unat pl)"
    unfolding b64encode_def map_map
    by (intro map_idI) (simp add: unat_of_nat_byte)
  with a show ?thesis
    by (simp add: decode_def utf8_decode_ascii)
qed

text \<open>Sextets of octets, and the octets back from the sextets.\<close>

lemma d16: "(b::nat) < 256 \<Longrightarrow> b div 16 < 16"
  by simp

lemma d64: "(c::nat) < 256 \<Longrightarrow> c div 64 < 4"
  by simp

lemma sextet1: "(a::nat) < 256 \<Longrightarrow> a div 4 < 64"
  by simp

lemma sextet2: "(b::nat) < 256 \<Longrightarrow> a mod 4 * 16 + b div 16 < 64"
  using d16 [of b] mod_less_divisor [of 4 a] by linarith

lemma sextet3: "(c::nat) < 256 \<Longrightarrow> b mod 16 * 4 + c div 64 < 64"
  using d64 [of c] mod_less_divisor [of 16 b] by linarith

lemma sextet5: "(a::nat) mod 4 * 16 < 64"
  by simp

lemma sextet6: "(b::nat) mod 16 * 4 < 64"
  by simp

lemma regroup1: "(b::nat) < 256 \<Longrightarrow> a div 4 * 4 + ((a mod 4) * 16 + b div 16) div 16 = a"
  by (simp add: d16)

lemma regroup2:
  "(b::nat) < 256 \<Longrightarrow> c < 256 \<Longrightarrow>
     (((a mod 4) * 16 + b div 16) mod 16) * 16 + ((b mod 16) * 4 + c div 64) div 4 = b"
  by (simp add: d16 d64)

lemma regroup3:
  "(c::nat) < 256 \<Longrightarrow> (((b mod 16) * 4 + c div 64) mod 4) * 64 + c mod 64 = c"
  by (simp add: d64)

lemma regroup4: "(a::nat) div 4 * 4 + ((a mod 4) * 16) div 16 = a"
  by simp

lemma regroup5:
  "(b::nat) < 256 \<Longrightarrow> (((a mod 4) * 16 + b div 16) mod 16) * 16 + ((b mod 16) * 4) div 4 = b"
  by (simp add: d16)

lemma b64decode_b64encode_octets:
  "\<forall>x \<in> set xs. x < 256 \<Longrightarrow> b64decode (b64encode_octets xs) = Some (map of_nat xs)"
proof (induction xs rule: b64encode_octets.induct)
  case 1
  show ?case by simp
next
  case (2 a)
  then show ?case
    by (simp add: b64val_b64chr sextet1 sextet5 regroup4 del: of_nat_add of_nat_mult)
next
  case (3 a b)
  then show ?case
    by (simp add: b64val_b64chr sextet1 sextet2 sextet6 regroup1 regroup5 b64chr_not_pad d16
          del: of_nat_add of_nat_mult)
next
  case (4 a b c r)
  then show ?case
    by (simp add: b64val_b64chr sextet1 sextet2 sextet3 regroup1 regroup2 regroup3
          b64chr_not_pad d16 d64 del: of_nat_add of_nat_mult)
qed

lemma b64decode_b64encode_payload:
  "b64decode (b64encode_octets (map unat pl)) = Some pl"
  using b64decode_b64encode_octets [of "map unat pl"]
  by (simp add: map_idI unat_byte)

text \<open>
  Claim C9. A \<^verbatim>\<open>cover\<close> or \<^verbatim>\<open>artwork\<close> message with a non-empty payload stores, under
  \<^verbatim>\<open>artwork_base64\<close>, the base64 text of the payload, and base64-decoding that text gives
  the payload back.
\<close>

theorem artwork_roundtrip:
  assumes "relative_topic (topic_prefix_of ud) (topic msg) \<in> {str ''cover'', str ''artwork''}"
    and "payload msg \<noteq> []"
  shows "\<exists>m' t. on_message pf ud msg m = Inr m'
           \<and> m' (str ''artwork_base64'') = Some (PyStr t)
           \<and> decode (b64encode (payload msg)) = Inr t
           \<and> b64decode t = Some (payload msg)"
  using assms
  by (auto simp: on_message_def on_message_try_def decode_b64encode setitem_def
        b64decode_b64encode_payload)

lemma decode_b64encode_Man: "decode (b64encode [0x4d, 0x61, 0x6e]) = Inr (str ''TWFu'')"
  by (simp add: decode_b64encode b64chr_def str_def)

theorem artwork_roundtrip_witness:
  "relative_topic (topic_prefix_of Map.empty) (str ''shairport-sync/cover'')
      \<in> {str ''cover'', str ''artwork''}
   \<and> [0x4d, 0x61, 0x6e] \<noteq> ([] :: byte list)
   \<and> on_message sample_float Map.empty
        \<lparr>topic = str ''shairport-sync/cover'', payload = [0x4d, 0x61, 0x6e]\<rparr> default_metadata
      = Inr (default_metadata(str ''artwork_base64'' \<mapsto> PyStr (str ''TWFu'')))
   \<and> b64decode (str ''TWFu'') = Some [0x4d, 0x61, 0x6e]"
  using artwork_roundtrip [of Map.empty
      "\<lparr>topic = str ''shairport-sync/cover'', payload = [0x4d, 0x61, 0x6e]\<rparr>"
      sample_float default_metadata]
  by (simp add: rt_cover decode_b64encode_Man on_message_def on_message_try_def setitem_def)

section \<open>Determinism\<close>

lemma on_message_prefix_only:
  "topic_prefix_of ud1 = topic_prefix_of ud2 \<Longrightarrow>
     on_message pf ud1 msg m = on_message pf ud2 msg m"
  by (simp add: on_message_def)

text \<open>
  Claim C10. The dict after a sequence of messages is a function of the sequence and of the
  topic prefix alone: two deliveries of the same messages from the default dict, by clients
  whose \<^verbatim>\<open>userdata\<close> give the same prefix, end (both return) in the same dict.
\<close>

theorem deliver_deterministic:
  assumes "topic_prefix_of ud1 = topic_prefix_of ud2"
  shows "deliver pf ud1 msgs default_metadata = deliver pf ud2 msgs default_metadata
     \<and> (\<exists>m. deliver pf ud1 msgs default_metadata = Inr m)"
proof -
  have "deliver pf ud1 msgs m = deliver pf ud2 msgs m" for m
    by (induction msgs arbitrary: m)
       (simp_all add: on_message_prefix_only [OF assms] split: sum.split)
  then show ?thesis using deliver_total by metis
qed

theorem deliver_deterministic_witness:
  "topic_prefix_of Map.empty = topic_prefix_of [str ''topic_prefix'' \<mapsto> str ''shairport-sync'']
   \<and> deliver sample_float [str ''topic_prefix'' \<mapsto> str ''shairport-sync'']
        [\<lparr>topic = str ''shairport-sync/title'', payload = [0x58]\<rparr>] default_metadata
      = Inr (default_metadata(str ''title'' \<mapsto> PyStr (str ''X'')))"
proof -
  have a: "topic_prefix_of Map.empty
             = topic_prefix_of [str ''topic_prefix'' \<mapsto> str ''shairport-sync'']"
    by (simp add: topic_prefix_of_def)
  show ?thesis
    using a deliver_deterministic [OF a, of sample_float
        "[\<lparr>topic = str ''shairport-sync/title'', payload = [0x58]\<rparr>]"]
    by (simp add: on_message_title_X)
qed

section \<open>The query endpoint\<close>

lemma value_ok_key: "value_ok k v \<Longrightarrow> k \<in> set metadata_keys"
  by (auto simp: value_ok_def metadata_keys_def split: if_splits)

lemma well_formed_default: "well_formed (default_metadata :: 'f metadata)"
  by (auto simp add: well_formed_def default_metadata_def value_ok_def metadata_keys_def)

lemma well_formed_setitem:
  "well_formed m \<Longrightarrow> value_ok (fst kv) (snd kv) \<Longrightarrow> well_formed (setitem m kv)"
  by (simp add: well_formed_def setitem_def)

lemma well_formed_foldl:
  "well_formed m \<Longrightarrow> \<forall>kv \<in> set ws. value_ok (fst kv) (snd kv) \<Longrightarrow>
     well_formed (foldl setitem m ws)"
  by (induction ws arbitrary: m) (simp_all add: well_formed_setitem)

lemma try_stores_ok:
  "on_message_try pf rt pl = Inr ws \<Longrightarrow> \<forall>kv \<in> set ws. value_ok (fst kv) (snd kv)"
  by (cases rt rule: topic_cases)
     (auto simp: on_message_try_def value_ok_def action_table_topics_def
           split: sum.splits option.splits if_splits)

lemma well_formed_step:
  assumes "well_formed m"
  shows "\<exists>m'. on_message pf ud msg m = Inr m' \<and> well_formed m'"
  using assms try_stores_ok well_formed_foldl
  by (fastforce simp: on_message_def split: sum.splits)

lemma well_formed_deliver:
  assumes "well_formed m"
  shows "\<exists>m'. deliver pf ud msgs m = Inr m' \<and> well_formed m'"
  using assms
proof (induction msgs arbitrary: m)
  case Nil
  then show ?case by simp
next
  case (Cons msg msgs)
  from well_formed_step [OF Cons.prems] obtain m1 where
    "on_message pf ud msg m = Inr m1" "well_formed m1" by blast
  with Cons.IH [of m1] show ?case by simp
qed

lemma well_formed_dom: "well_formed m \<Longrightarrow> dom m = set metadata_keys"
proof (rule set_eqI)
  fix k
  assume wf: "well_formed m"
  show "k \<in> dom m \<longleftrightarrow> k \<in> set metadata_keys"
  proof (cases "m k")
    case None
    with wf show ?thesis by (auto simp: well_formed_def split: option.splits)
  next
    case (Some v)
    with wf have "value_ok k v"
      unfolding well_formed_def by (metis option.simps(5))
    with Some show ?thesis using value_ok_key by auto
  qed
qed

lemma well_formed_value:
  "well_formed m \<Longrightarrow> k \<in> set metadata_keys \<Longrightarrow> \<exists>v. m k = Some v \<and> value_ok k v"
  unfolding well_formed_def by (metis option.exhaust option.simps(4) option.simps(5))

lemma json_body_get: "json_body (get_metadata m) k = map_option json_of (m k)"
  by (simp add: get_metadata_def jsonify_def)

lemma json_number_float: "json_number (json_of (PyFloat x)) = isfinite x"
  by (cases x) simp_all

lemma decode_nan: "decode [0x6e, 0x61, 0x6e] = Inr (str ''nan'')"
  by (simp add: decode_def str_def)

lemma sample_float_nan: "sample_float (str ''nan'') = Some NaN"
  by (simp add: sample_float_def)

lemma on_message_volume_nan:
  "on_message sample_float Map.empty
     \<lparr>topic = str ''shairport-sync/volume'', payload = [0x6e, 0x61, 0x6e]\<rparr> m
   = Inr (m(str ''volume'' \<mapsto> PyFloat NaN))"
  by (simp add: on_message_def rt_volume on_message_try_def decode_nan sample_float_nan
        setitem_def)

text \<open>
  Claim C8, as the code has it. After any sequence of messages delivered from the default
  dict, \<^verbatim>\<open>/metadata\<close> answers 200 with a body whose keys are exactly the nine keys of
  the dict: title, artist, album, genre and client_name strings, artwork_base64 \<open>null\<close>
  or the base64 text of a non-empty payload, is_playing a boolean, player_state one of the
  three state strings; volume is an int or a float, and its serialisation is a JSON number
  exactly when it is not a float that is infinite or NaN; each value is the serialisation
  of the dict's value at the call.
\<close>

theorem get_metadata_response:
  "\<exists>m. deliver pf ud msgs default_metadata = Inr m
     \<and> status_code (get_metadata m) = 200
     \<and> dom (json_body (get_metadata m))
         = set (map str [''title'', ''artist'', ''album'', ''genre'', ''artwork_base64'',
                  ''is_playing'', ''player_state'', ''volume'', ''client_name''])
     \<and> (\<forall>k \<in> set (map str [''title'', ''artist'', ''album'', ''genre'', ''client_name'']).
           \<exists>t. json_body (get_metadata m) k = Some (JString t))
     \<and> (json_body (get_metadata m) (str ''artwork_base64'') = Some JNull
         \<or> (\<exists>p t. p \<noteq> [] \<and> decode (b64encode p) = Inr t
               \<and> json_body (get_metadata m) (str ''artwork_base64'') = Some (JString t)))
     \<and> (\<exists>b. json_body (get_metadata m) (str ''is_playing'') = Some (JBool b))
     \<and> json_body (get_metadata m) (str ''player_state'')
          \<in> {Some (JString (str ''stopped'')), Some (JString (str ''playing'')),
             Some (JString (str ''paused''))}
     \<and> (\<exists>v. m (str ''volume'') = Some v
           \<and> json_body (get_metadata m) (str ''volume'') = Some (json_of v)
           \<and> ((\<exists>i. v = PyInt i) \<or> (\<exists>x. v = PyFloat x))
           \<and> json_number (json_of v) = (\<forall>x. v = PyFloat x \<longrightarrow> isfinite x))
     \<and> (\<forall>k. json_body (get_metadata m) k = map_option json_of (m k))"
proof -
  obtain m where m: "deliver pf ud msgs default_metadata = Inr m" and wf: "well_formed m"
    using well_formed_deliver [OF well_formed_default] by blast
  have a_keys: "dom (json_body (get_metadata m)) = set metadata_keys"
    using well_formed_dom [OF wf] by (auto simp: json_body_get dom_def)
  have a_text: "\<exists>t. json_body (get_metadata m) k = Some (JString t)"
    if "k \<in> set (map str [''title'', ''artist'', ''album'', ''genre'', ''client_name''])" for k
  proof -
    from that have "k \<in> set metadata_keys" by (auto simp: metadata_keys_def)
    from well_formed_value [OF wf this] that show ?thesis
      by (auto simp: value_ok_def json_body_get)
  qed
  have a_art: "json_body (get_metadata m) (str ''artwork_base64'') = Some JNull
         \<or> (\<exists>p t. p \<noteq> [] \<and> decode (b64encode p) = Inr t
               \<and> json_body (get_metadata m) (str ''artwork_base64'') = Some (JString t))"
    using well_formed_value [OF wf, of "str ''artwork_base64''"]
    by (auto simp: value_ok_def json_body_get metadata_keys_def)
  have a_playing: "\<exists>b. json_body (get_metadata m) (str ''is_playing'') = Some (JBool b)"
    using well_formed_value [OF wf, of "str ''is_playing''"]
    by (auto simp: value_ok_def json_body_get metadata_keys_def)
  have a_state: "json_body (get_metadata m) (str ''player_state'')
          \<in> {Some (JString (str ''stopped'')), Some (JString (str ''playing'')),
             Some (JString (str ''paused''))}"
    using well_formed_value [OF wf, of "str ''player_state''"]
    by (auto simp: value_ok_def json_body_get metadata_keys_def)
  have a_vol: "\<exists>v. m (str ''volume'') = Some v
           \<and> json_body (get_metadata m) (str ''volume'') = Some (json_of v)
           \<and> ((\<exists>i. v = PyInt i) \<or> (\<exists>x. v = PyFloat x))
           \<and> json_number (json_of v) = (\<forall>x. v = PyFloat x \<longrightarrow> isfinite x)"
    using well_formed_value [OF wf, of "str ''volume''"]
    by (auto simp: value_ok_def json_body_get metadata_keys_def json_number_float)
  have a_status: "status_code (get_metadata m) = 200"
    by (simp add: get_metadata_def jsonify_def)
  show ?thesis
    using m a_status a_keys a_text a_art a_playing a_state a_vol json_body_get
    unfolding metadata_keys_def by blast
qed

theorem get_metadata_response_witness:
  "str ''title'' \<in> set (map str [''title'', ''artist'', ''album'', ''genre'', ''client_name''])
   \<and> deliver sample_float Map.empty
        [\<lparr>topic = str ''shairport-sync/title'', payload = [0x58]\<rparr>,
         \<lparr>topic = str ''shairport-sync/volume'', payload = [0x35, 0x30]\<rparr>] default_metadata
      = Inr (default_metadata(str ''title'' \<mapsto> PyStr (str ''X''),
               str ''volume'' \<mapsto> PyFloat (Finite 50)))
   \<and> status_code (get_metadata (default_metadata(str ''title'' \<mapsto> PyStr (str ''X''),
        str ''volume'' \<mapsto> PyFloat (Finite 50)) :: int metadata)) = 200
   \<and> json_body (get_metadata (default_metadata(str ''title'' \<mapsto> PyStr (str ''X''),
        str ''volume'' \<mapsto> PyFloat (Finite 50)) :: int metadata)) (str ''title'')
      = Some (JString (str ''X''))
   \<and> isfinite (Finite (50 :: int))
   \<and> json_body (get_metadata (default_metadata(str ''title'' \<mapsto> PyStr (str ''X''),
        str ''volume'' \<mapsto> PyFloat (Finite 50)) :: int metadata)) (str ''volume'')
      = Some (JFloat 50)
   \<and> json_number (JFloat (50 :: int))"
  using get_metadata_response [of sample_float Map.empty
      "[\<lparr>topic = str ''shairport-sync/title'', payload = [0x58]\<rparr>,
        \<lparr>topic = str ''shairport-sync/volume'', payload = [0x35, 0x30]\<rparr>]"]
  by (simp add: on_message_title_X on_message_volume_50 json_body_get get_metadata_def
        jsonify_def)

text \<open>
  The claim as stated fails: \<^verbatim>\<open>float\<close> reads the payload \<^verbatim>\<open>nan\<close> as NaN, the
  \<^verbatim>\<open>volume\<close> branch stores it, and \<^verbatim>\<open>/metadata\<close> then writes the bare token
  \<^verbatim>\<open>NaN\<close> for volume, which is not a JSON number.
\<close>

theorem volume_nan_counterexample:
  "decode [0x6e, 0x61, 0x6e] = Inr (str ''nan'')
   \<and> sample_float (str ''nan'') = Some NaN
   \<and> deliver sample_float Map.empty
        [\<lparr>topic = str ''shairport-sync/volume'', payload = [0x6e, 0x61, 0x6e]\<rparr>]
        default_metadata
      = Inr (default_metadata(str ''volume'' \<mapsto> PyFloat NaN))
   \<and> json_body (get_metadata (default_metadata(str ''volume'' \<mapsto> PyFloat NaN)
        :: int metadata)) (str ''volume'') = Some (JToken (str ''NaN''))
   \<and> \<not> json_number (JToken (str ''NaN'') :: int json)"
  by (simp add: decode_nan sample_float_nan on_message_volume_nan json_body_get)

section \<open>Stopped state and title\<close>






text \<open>
  Inside the callback the stores of a stop action are separate steps: after the first two
  of them the dict holds \<^verbatim>\<open>player_state\<close> stopped and still the title of the track.
\<close>

lemma stop_handler_intermediate_state:
  "on_message_try sample_float (str ''play_end'') []
   = Inr [(str ''is_playing'', PyBool False),
          (str ''player_state'', PyStr (str ''stopped'')),
          (str ''title'', PyStr (str '''')),
          (str ''artist'', PyStr (str '''')),
          (str ''album'', PyStr (str '''')),
          (str ''artwork_base64'', PyNone)]
   \<and> foldl setitem
        (default_metadata(str ''title'' \<mapsto> PyStr (str ''X''),
           str ''is_playing'' \<mapsto> PyBool True,
           str ''player_state'' \<mapsto> PyStr (str ''playing'')))
        [(str ''is_playing'', PyBool False), (str ''player_state'', PyStr (str ''stopped''))]
        (str ''player_state'') = Some (PyStr (str ''stopped'') :: int pyval)
   \<and> foldl setitem
        (default_metadata(str ''title'' \<mapsto> PyStr (str ''X''),
           str ''is_playing'' \<mapsto> PyBool True,
           str ''player_state'' \<mapsto> PyStr (str ''playing'')))
        [(str ''is_playing'', PyBool False), (str ''player_state'', PyStr (str ''stopped''))]
        (str ''title'') = Some (PyStr (str ''X'') :: int pyval)"
  by (simp add: on_message_try_def setitem_def)

end
